theory Spec2Isabelle
  imports Main "HOL-Library.AList"
begin

section \<open>Strings and identifiers\<close>

text \<open>
  Strings are \<^typ>\<open>string\<close>; a character is one of the 256 code units below U+0100.
  The regular expression class \<^verbatim>\<open>\s\<close> of the source matches, in that range, the
  characters U+0009 to U+000D, U+0020 and U+00A0.
\<close>

definition is_space :: "char \<Rightarrow> bool" where
  "is_space c = (c \<in> set [CHR 0x09, CHR 0x0A, CHR 0x0B, CHR 0x0C, CHR 0x0D, CHR 0x20, CHR 0xA0])"

text \<open>\<^verbatim>\<open>s.replace(/\s/g, '_')\<close>: every single whitespace character becomes one underscore.\<close>

definition replace_spaces :: "string \<Rightarrow> string" where
  "replace_spaces s = map (\<lambda>c. if is_space c then CHR ''_'' else c) s"

text \<open>The decimal numeral of an integer.\<close>

definition digit_char :: "nat \<Rightarrow> char" where
  "digit_char d = ''0123456789'' ! d"

fun string_of_nat :: "nat \<Rightarrow> string" where
  "string_of_nat n =
     (if n < 10 then [digit_char n] else string_of_nat (n div 10) @ [digit_char (n mod 10)])"

declare string_of_nat.simps [simp del]

definition decimal :: "int \<Rightarrow> string" where
  "decimal i = (if i < 0 then CHR ''-'' # string_of_nat (nat (- i)) else string_of_nat (nat i))"

text \<open>
  A chapter is a JavaScript number, and the code only ever prints it. A number is given
  here by the text the platform prints for it inside a template literal: \<open>Whole i\<close> when
  that text is the decimal numeral of the integer \<open>i\<close> (chapter numbers are such), and
  \<open>Other s\<close> with the text \<open>s\<close> itself for every other number, such as \<^verbatim>\<open>1e+21\<close>, \<^verbatim>\<open>1.5\<close> or
  \<^verbatim>\<open>NaN\<close>.
\<close>

datatype js_number = Whole int | Other string

fun number_text :: "js_number \<Rightarrow> string" where
  "number_text (Whole i) = decimal i"
| "number_text (Other s) = s"

text \<open>\<^verbatim>\<open>ChapterIdentifier\<close>: \<^verbatim>\<open>{ book, chapter }\<close>; the field \<^verbatim>\<open>chapter\<close> is \<open>chapter_no\<close> here.\<close>

record ChapterIdentifier =
  book :: string
  chapter_no :: js_number

text \<open>
  \<^verbatim>\<open>getCacheKey = (identifier, translation) =>
     `${identifier.book.replace(/\s/g, '_')}-${identifier.chapter}-${translation}`\<close>
\<close>

definition getCacheKey :: "ChapterIdentifier \<Rightarrow> string \<Rightarrow> string" where
  "getCacheKey identifier translation =
     replace_spaces (book identifier) @ ''-'' @ number_text (chapter_no identifier) @ ''-'' @ translation"

section \<open>Loosely typed values at the backend boundary\<close>

text \<open>
  A profile row arrives as parsed JSON and the type annotations of the source are
  unchecked casts, so the codec is modelled over the values that exist at run time.
  Numbers matter to the codec only through \<^verbatim>\<open>typeof\<close> and truthiness, so integers
  stand for them. An object is its list of properties in insertion order; reading a
  property that is not there gives \<^verbatim>\<open>undefined\<close>.
\<close>

datatype json =
    JUndefined
  | JNull
  | JBool bool
  | JNum int
  | JStr string
  | JArr "json list"
  | JObj "(string \<times> json) list"

type_synonym obj = "(string \<times> json) list"

definition js_get :: "obj \<Rightarrow> string \<Rightarrow> json" where
  "js_get ob k = (case map_of ob k of None \<Rightarrow> JUndefined | Some v \<Rightarrow> v)"

text \<open>Property access on a value that has already been found truthy never throws.\<close>

fun member_of :: "json \<Rightarrow> string \<Rightarrow> json" where
  "member_of (JObj ob) k = js_get ob k"
| "member_of _ k = JUndefined"

fun truthy :: "json \<Rightarrow> bool" where
  "truthy JUndefined = False"
| "truthy JNull = False"
| "truthy (JBool b) = b"
| "truthy (JNum n) = (n \<noteq> 0)"
| "truthy (JStr s) = (s \<noteq> [])"
| "truthy (JArr _) = True"
| "truthy (JObj _) = True"

text \<open>\<^verbatim>\<open>a || b\<close> and \<^verbatim>\<open>a ?? b\<close>.\<close>

definition js_or :: "json \<Rightarrow> json \<Rightarrow> json" where
  "js_or a b = (if truthy a then a else b)"

definition js_nullish :: "json \<Rightarrow> json \<Rightarrow> json" where
  "js_nullish a b = (if a = JNull \<or> a = JUndefined then b else a)"

fun isArray :: "json \<Rightarrow> bool" where
  "isArray (JArr _) = True"
| "isArray _ = False"

fun isObject :: "json \<Rightarrow> bool" where
  "isObject (JObj _) = True"
| "isObject _ = False"

fun typeof_string :: "json \<Rightarrow> bool" where
  "typeof_string (JStr _) = True"
| "typeof_string _ = False"

fun typeof_number :: "json \<Rightarrow> bool" where
  "typeof_number (JNum _) = True"
| "typeof_number _ = False"

text \<open>The members of \<^verbatim>\<open>enum StudyMode\<close> are its five string values.\<close>

definition RANDOM :: json where "RANDOM = JStr ''Random Chapter''"
definition BOOK :: json where "BOOK = JStr ''Book Study''"
definition READ_THROUGH :: json where "READ_THROUGH = JStr ''Read Through''"
definition BOOKMARKS :: json where "BOOKMARKS = JStr ''Bookmarks''"
definition SCRIPTURE_READER :: json where "SCRIPTURE_READER = JStr ''Scripture Reader''"

definition isStudyMode :: "json \<Rightarrow> bool" where
  "isStudyMode v = (v \<in> set [RANDOM, BOOK, READ_THROUGH, BOOKMARKS, SCRIPTURE_READER])"

section \<open>The profile codec\<close>

text \<open>\<^verbatim>\<open>obj && typeof obj.book === 'string' && typeof obj.chapter === 'number'\<close>\<close>

definition isChapterIdentifier :: "json \<Rightarrow> bool" where
  "isChapterIdentifier ob =
     (truthy ob \<and> typeof_string (member_of ob ''book'') \<and> typeof_number (member_of ob ''chapter''))"

text \<open>\<^verbatim>\<open>UserData\<close> as \<^verbatim>\<open>fromSupabase\<close> builds it; the fields \<^verbatim>\<open>id\<close> and \<^verbatim>\<open>notes\<close> are \<open>id_field\<close> and \<open>notes_field\<close> here.\<close>

record UserData =
  id_field :: json
  username :: json
  studyMode :: json
  readThroughIndex :: json
  userSelectedChapter :: json
  completedChapters :: json
  bookmarks :: json
  notes_field :: json
  cachedContent :: json
  translation :: json
  updated_at :: json

definition fromSupabase :: "obj \<Rightarrow> UserData" where
  "fromSupabase profile =
     (let rawChapter = js_get profile ''user_selected_chapter'';
          validatedChapter = (if isChapterIdentifier rawChapter then rawChapter else JNull)
      in \<lparr> id_field = js_get profile ''id'',
           username = js_or (js_get profile ''username'') (JStr ''User''),
           studyMode = js_or (js_get profile ''study_mode'') READ_THROUGH,
           readThroughIndex = js_nullish (js_get profile ''read_through_index'') (JNum 0),
           userSelectedChapter = validatedChapter,
           completedChapters =
             (if isArray (js_get profile ''completed_chapters'')
              then js_get profile ''completed_chapters'' else JArr []),
           bookmarks = (if isArray (js_get profile ''bookmarks'') then js_get profile ''bookmarks'' else JArr []),
           notes_field = js_or (js_get profile ''notes'') (JObj []),
           cachedContent = js_or (js_get profile ''cached_content'') (JObj []),
           translation = js_or (js_get profile ''translation'') (JStr ''web''),
           updated_at = js_or (js_get profile ''updated_at'') JUndefined \<rparr>)"

text \<open>
  One statement of \<^verbatim>\<open>toSupabase\<close>: \<^verbatim>\<open>if (data.field !== undefined) dbData.wire = data.field;\<close>
  The assignment \<^verbatim>\<open>dbData.k = v\<close> is \<^const>\<open>AList.update\<close>: it overwrites \<open>k\<close> in place or
  appends it.
\<close>

definition assign_defined :: "string \<Rightarrow> string \<Rightarrow> obj \<Rightarrow> obj \<Rightarrow> obj" where
  "assign_defined field wire data dbData =
     (if js_get data field \<noteq> JUndefined then AList.update wire (js_get data field) dbData else dbData)"

text \<open>\<^verbatim>\<open>toSupabase\<close>: nine such statements on a fresh object, in the order of the source.\<close>

definition toSupabase :: "obj \<Rightarrow> obj" where
  "toSupabase data =
     (let dbData = [];
          dbData = assign_defined ''username'' ''username'' data dbData;
          dbData = assign_defined ''studyMode'' ''study_mode'' data dbData;
          dbData = assign_defined ''readThroughIndex'' ''read_through_index'' data dbData;
          dbData = assign_defined ''userSelectedChapter'' ''user_selected_chapter'' data dbData;
          dbData = assign_defined ''completedChapters'' ''completed_chapters'' data dbData;
          dbData = assign_defined ''bookmarks'' ''bookmarks'' data dbData;
          dbData = assign_defined ''notes'' ''notes'' data dbData;
          dbData = assign_defined ''cachedContent'' ''cached_content'' data dbData;
          dbData = assign_defined ''translation'' ''translation'' data dbData
      in dbData)"

text \<open>The fields \<^verbatim>\<open>toSupabase\<close> handles, each with its wire name.\<close>

definition wire_names :: "(string \<times> string) list" where
  "wire_names =
     [(''username'', ''username''),
      (''studyMode'', ''study_mode''),
      (''readThroughIndex'', ''read_through_index''),
      (''userSelectedChapter'', ''user_selected_chapter''),
      (''completedChapters'', ''completed_chapters''),
      (''bookmarks'', ''bookmarks''),
      (''notes'', ''notes''),
      (''cachedContent'', ''cached_content''),
      (''translation'', ''translation'')]"

section \<open>Fetching the profile\<close>

text \<open>
  One query of \<^verbatim>\<open>getUserData\<close> either rejects (the \<^verbatim>\<open>catch\<close> branch) or resolves to
  \<^verbatim>\<open>{ data, error }\<close>; the flag says whether the 2000 ms timer of the attempt fired before
  the reply (\<^verbatim>\<open>didTimeout\<close>). The backend is the outcome of each attempt, by attempt number.
\<close>

record pg_error =
  err_code :: string
  err_message :: string

datatype query_outcome =
    QueryRejects
  | QueryResolves "obj option" "pg_error option" bool

datatype event = GetSession | Query nat | Delay nat

datatype js_exception = ReferenceError string

datatype 'a completion = Returns 'a | Throws js_exception

text \<open>
  The bindings a statement of the loop body can see once the \<^verbatim>\<open>try\<close> statement is over:
  the parameter \<^verbatim>\<open>id\<close>, the loop variable \<^verbatim>\<open>attempt\<close>, and \<^verbatim>\<open>didTimeout\<close> and \<^verbatim>\<open>timeout\<close>,
  declared in the loop body itself. \<^verbatim>\<open>const { data, error } = await ...\<close> stands inside
  the \<^verbatim>\<open>try\<close> block, so these two names are bound only there; the module declares
  neither. Evaluating a name with no binding throws a \<^verbatim>\<open>ReferenceError\<close>.
\<close>

definition after_try_scope :: "string list" where
  "after_try_scope = [''id'', ''attempt'', ''didTimeout'', ''timeout'']"

text \<open>
  The loop \<^verbatim>\<open>for (let attempt = 1; attempt <= 3; attempt++)\<close>, with the events so far.
  Inside \<^verbatim>\<open>try\<close>: a truthy \<^verbatim>\<open>data\<close> is decoded and returned. After it: a fired timer returns
  \<^verbatim>\<open>null\<close>; then \<^verbatim>\<open>if (error && error.code !== 'PGRST116') return null\<close>, then
  \<^verbatim>\<open>if (data) return ...\<close>, then \<^verbatim>\<open>if (attempt < 3) await delay(attempt * 500)\<close>, each
  name read in the scope given.
\<close>

function attempts ::
  "string list \<Rightarrow> (nat \<Rightarrow> query_outcome) \<Rightarrow> nat \<Rightarrow> event list \<Rightarrow> event list \<times> UserData option completion"
where
  "attempts scope backend attempt evs =
     (if attempt \<le> 3 then
        (case backend attempt of
           QueryRejects \<Rightarrow> (evs @ [Query attempt], Returns None)
         | QueryResolves data error didTimeout \<Rightarrow>
             (case data of
                Some row \<Rightarrow> (evs @ [Query attempt], Returns (Some (fromSupabase row)))
              | None \<Rightarrow>
                  if didTimeout then (evs @ [Query attempt], Returns None)
                  else if ''error'' \<notin> set scope
                    then (evs @ [Query attempt], Throws (ReferenceError ''error''))
                  else if (case error of None \<Rightarrow> False | Some e \<Rightarrow> err_code e \<noteq> ''PGRST116'')
                    then (evs @ [Query attempt], Returns None)
                  else if ''data'' \<notin> set scope
                    then (evs @ [Query attempt], Throws (ReferenceError ''data''))
                  else if attempt < 3
                    then attempts scope backend (attempt + 1) (evs @ [Query attempt, Delay (attempt * 500)])
                  else attempts scope backend (attempt + 1) (evs @ [Query attempt])))
      else (evs, Returns None))"
  by pat_completeness auto
termination
  by (relation "measure (\<lambda>(scope, backend, attempt, evs). 4 - attempt)") auto

declare attempts.simps [simp del]

text \<open>\<^verbatim>\<open>getUserData\<close> as written, and the same text with the two names visible.\<close>

definition getUserData :: "(nat \<Rightarrow> query_outcome) \<Rightarrow> event list \<times> UserData option completion" where
  "getUserData backend = attempts after_try_scope backend 1 [GetSession]"

definition getUserData_hoisted :: "(nat \<Rightarrow> query_outcome) \<Rightarrow> event list \<times> UserData option completion" where
  "getUserData_hoisted backend = attempts (''data'' # ''error'' # after_try_scope) backend 1 [GetSession]"

section \<open>Thrown values\<close>

text \<open>A thrown value is an \<^verbatim>\<open>Error\<close> with its message, or anything else.\<close>

datatype thrown = JsError string | NotAnError

section \<open>Local storage\<close>

text \<open>
  \<^verbatim>\<open>localStorage\<close> maps keys to strings and is taken to be readable: \<^verbatim>\<open>getItem\<close> and
  \<^verbatim>\<open>removeItem\<close> return. \<^verbatim>\<open>JSON.parse\<close> belongs to the platform and is a parameter:
  \<open>None\<close> is its \<^verbatim>\<open>SyntaxError\<close>. The callback is optional (\<open>None\<close> when the caller passed
  none); a callback that is called returns or throws.
\<close>

type_synonym storage = "string \<rightharpoonup> string"

datatype callback = CallbackReturns | CallbackThrows thrown

datatype storage_effect = RemoveItem string | OnCorrupt

text \<open>
  What a call leaves behind: \<open>returned\<close> is \<open>Inr\<close> the value returned or \<open>Inl\<close> the value
  that left the function as an exception; the store afterwards; the removals and callback
  calls, in order.
\<close>

record read_outcome =
  returned :: "thrown + json"
  storage_after :: storage
  effects :: "storage_effect list"

text \<open>
  \<^verbatim>\<open>robustSafeParse\<close>. \<^verbatim>\<open>if (!raw) return fallback\<close> covers the missing key and the empty
  string. The \<^verbatim>\<open>catch\<close> handler removes the key and then calls the callback; what the
  callback throws there is not caught by anything.
\<close>

definition robustSafeParse ::
  "(string \<Rightarrow> json option) \<Rightarrow> storage \<Rightarrow> string \<Rightarrow> json \<Rightarrow> callback option \<Rightarrow> read_outcome" where
  "robustSafeParse json_parse localStorage key fallback onCorrupt =
     (case localStorage key of
        None \<Rightarrow> \<lparr>returned = Inr fallback, storage_after = localStorage, effects = []\<rparr>
      | Some raw \<Rightarrow>
          if raw = [] then \<lparr>returned = Inr fallback, storage_after = localStorage, effects = []\<rparr>
          else (case json_parse raw of
                  Some parsed \<Rightarrow> \<lparr>returned = Inr parsed, storage_after = localStorage, effects = []\<rparr>
                | None \<Rightarrow>
                    (case onCorrupt of
                       None \<Rightarrow>
                         \<lparr>returned = Inr fallback, storage_after = localStorage(key := None),
                          effects = [RemoveItem key]\<rparr>
                     | Some CallbackReturns \<Rightarrow>
                         \<lparr>returned = Inr fallback, storage_after = localStorage(key := None),
                          effects = [RemoveItem key, OnCorrupt]\<rparr>
                     | Some (CallbackThrows e) \<Rightarrow>
                         \<lparr>returned = Inl e, storage_after = localStorage(key := None),
                          effects = [RemoveItem key, OnCorrupt]\<rparr>)))"

text \<open>
  \<^verbatim>\<open>JSON.parse\<close> on six texts, to run \<^const>\<open>robustSafeParse\<close> on concrete stores: it
  accepts \<^verbatim>\<open>null\<close>, \<^verbatim>\<open>true\<close>, \<^verbatim>\<open>false\<close>, \<^verbatim>\<open>{}\<close> and \<^verbatim>\<open>[]\<close> and rejects the empty text and
  \<^verbatim>\<open>{oops\<close>. It is used at these texts only.
\<close>

definition json_parse_sample :: "string \<Rightarrow> json option" where
  "json_parse_sample s =
     (if s = ''null'' then Some JNull
      else if s = ''true'' then Some (JBool True)
      else if s = ''false'' then Some (JBool False)
      else if s = ''{}'' then Some (JObj [])
      else if s = ''[]'' then Some (JArr [])
      else None)"

section \<open>Completed chapters\<close>

text \<open>
  \<^verbatim>\<open>chapterIdentifierKey\<close> is \<^verbatim>\<open>null\<close> without a current chapter. \<^verbatim>\<open>markChapterComplete\<close>
  returns the profile updates it issues, each the new \<^verbatim>\<open>completedChapters\<close> list.
\<close>

definition chapterIdentifierKey :: "ChapterIdentifier option \<Rightarrow> string option" where
  "chapterIdentifierKey currentChapter =
     (case currentChapter of
        None \<Rightarrow> None
      | Some c \<Rightarrow> Some (replace_spaces (book c) @ ''-'' @ number_text (chapter_no c)))"

definition markChapterComplete :: "string option \<Rightarrow> string list \<Rightarrow> string list list" where
  "markChapterComplete key safeCompletedChapters =
     (case key of
        None \<Rightarrow> []
      | Some k \<Rightarrow>
          if k \<noteq> [] \<and> k \<notin> set safeCompletedChapters then [safeCompletedChapters @ [k]] else [])"

text \<open>
  \<^verbatim>\<open>handleUpdateUserData\<close> sends the update and reads the profile back, so the list a later
  call sees is the one the last update carried (when the write and the read succeed).
\<close>

definition completed_after :: "string list \<Rightarrow> string list list \<Rightarrow> string list" where
  "completed_after safeCompletedChapters issued = (if issued = [] then safeCompletedChapters else last issued)"

section \<open>Chapter content\<close>

text \<open>
  \<^verbatim>\<open>Verse\<close> of \<^verbatim>\<open>types.ts\<close>; \<open>verse_chapter\<close> and \<open>verse_text\<close> are its fields \<^verbatim>\<open>chapter\<close>
  and \<^verbatim>\<open>text\<close>.
\<close>

record Verse =
  book_id :: string
  book_name :: string
  verse_chapter :: js_number
  verse :: int
  verse_text :: string

text \<open>
  A deep dive and a set of enrichments are whatever \<^verbatim>\<open>JSON.parse\<close> gave for the text of the
  reply: the source casts the result and checks nothing, so they are \<^typ>\<open>json\<close> values
  and the pipeline tests them for truthiness. A cached bundle holds the three parts.
\<close>

record CachedChapterContent =
  cc_verses :: "Verse list"
  cc_deepDiveData :: json
  cc_allEnrichmentData :: json

text \<open>
  The object that both the \<^verbatim>\<open>catch\<close> handler of \<^verbatim>\<open>getAllChapterEnrichments\<close> and the
  \<^verbatim>\<open>catch\<close> block of the pipeline write out.
\<close>

definition emptyEnrichments :: json where
  "emptyEnrichments =
     JObj [(''crossReferences'', JArr []),
           (''wordStudies'', JArr []),
           (''historicalContext'',
              JObj [(''geography'', JStr []), (''customs'', JStr []), (''politicalClimate'', JStr [])]),
           (''literaryAnalysis'', JObj [(''structure'', JStr []), (''themes'', JArr [])]),
           (''interpretations'', JArr [])]"

section \<open>The generative service\<close>

text \<open>
  A completion request fails with a thrown value (the request rejects, or its text is not
  JSON), or its text parses to a value. Both functions catch every failure:
  \<^verbatim>\<open>getChapterDeepDive\<close> answers it with \<^verbatim>\<open>null\<close>, \<^verbatim>\<open>getAllChapterEnrichments\<close> with the empty
  object.
\<close>

datatype ai_reply = AiFails thrown | AiJson json

definition getChapterDeepDive :: "ai_reply \<Rightarrow> json" where
  "getChapterDeepDive reply = (case reply of AiFails error \<Rightarrow> JNull | AiJson parsed \<Rightarrow> parsed)"

definition getAllChapterEnrichments :: "ai_reply \<Rightarrow> json" where
  "getAllChapterEnrichments reply =
     (case reply of AiFails error \<Rightarrow> emptyEnrichments | AiJson parsed \<Rightarrow> parsed)"

section \<open>The chapter pipeline\<close>

text \<open>\<^verbatim>\<open>s.includes(p)\<close>: \<open>p\<close> occurs in \<open>s\<close> as a contiguous run, case-sensitively.\<close>

fun starts_with :: "string \<Rightarrow> string \<Rightarrow> bool" where
  "starts_with s [] = True"
| "starts_with [] (p # ps) = False"
| "starts_with (c # cs) (p # ps) = (c = p \<and> starts_with cs ps)"

fun str_includes :: "string \<Rightarrow> string \<Rightarrow> bool" where
  "str_includes [] p = (p = [])"
| "str_includes (c # cs) p = (starts_with (c # cs) p \<or> str_includes cs p)"

text \<open>
  The message of the \<^verbatim>\<open>catch\<close> block:
  \<^verbatim>\<open>(error instanceof Error && error.message.includes("quota")) ? '...' : `...${...}...`\<close>
\<close>

definition errorMessage :: "thrown \<Rightarrow> string" where
  "errorMessage error =
     (if (case error of JsError m \<Rightarrow> str_includes m ''quota'' | NotAnError \<Rightarrow> False)
      then ''Failed to load chapter data: Daily API quota exceeded. Please try again tomorrow.''
      else ''There was an error loading the chapter text: ''
           @ (case error of JsError m \<Rightarrow> m | NotAnError \<Rightarrow> ''Unknown error'')
           @ ''. Please try again.'')"

datatype service_call =
    GetChapterTextFromApi ChapterIdentifier string
  | GetChapterDeepDive ChapterIdentifier
  | GetAllChapterEnrichments ChapterIdentifier

text \<open>
  What the component shows (\<open>verses\<close>, \<open>deepDiveData\<close>, \<open>allEnrichmentData\<close>,
  \<open>isChapterLoading\<close>) and what the run did: the service calls it made and the
  \<^verbatim>\<open>cachedContent\<close> mappings it passed to \<^verbatim>\<open>onUpdateUserData\<close>, each one profile update.
\<close>

record pipeline =
  verses :: "Verse list"
  deepDiveData :: json
  allEnrichmentData :: json
  isChapterLoading :: bool
  calls :: "service_call list"
  updates :: "(string \<rightharpoonup> CachedChapterContent) list"

definition initial :: pipeline where
  "initial = \<lparr> verses = [], deepDiveData = JNull, allEnrichmentData = JNull, isChapterLoading = True,
               calls = [], updates = [] \<rparr>"

text \<open>The \<^verbatim>\<open>catch\<close> block: one verse numbered 0 that carries the message, and empty enrichments.\<close>

definition catch_block :: "ChapterIdentifier \<Rightarrow> thrown \<Rightarrow> pipeline \<Rightarrow> pipeline" where
  "catch_block currentChapter error st =
     st \<lparr> verses := [\<lparr> book_id = [], book_name = book currentChapter,
                       verse_chapter = chapter_no currentChapter, verse = 0,
                       verse_text = errorMessage error \<rparr>],
          allEnrichmentData := emptyEnrichments \<rparr>"

text \<open>
  \<^verbatim>\<open>fetchAllChapterData\<close>. The text service throws or returns verses; the two generative
  calls start together once the text is there and neither can throw; the condition
  \<^verbatim>\<open>chapterVerses.length > 0 && deepDive && enrichments\<close> tests the two results for
  truthiness; the profile update resolves (\<open>None\<close>) or throws. The \<^verbatim>\<open>finally\<close> block
  clears the loading flag on every path that entered \<^verbatim>\<open>try\<close>.
\<close>

definition fetchAllChapterData ::
  "ChapterIdentifier \<Rightarrow> string \<Rightarrow> (string \<rightharpoonup> CachedChapterContent) \<Rightarrow> thrown + Verse list
   \<Rightarrow> ai_reply \<Rightarrow> ai_reply \<Rightarrow> thrown option \<Rightarrow> pipeline \<Rightarrow> pipeline" where
  "fetchAllChapterData currentChapter safeTranslation safeCachedContent textResult deepReply
       enrichReply updateResult st0 =
     (let cacheKey = getCacheKey currentChapter safeTranslation;
          st = st0 \<lparr> isChapterLoading := True \<rparr>
      in case safeCachedContent cacheKey of
           Some cachedData \<Rightarrow>
             st \<lparr> verses := cc_verses cachedData,
                  deepDiveData := cc_deepDiveData cachedData,
                  allEnrichmentData := cc_allEnrichmentData cachedData,
                  isChapterLoading := False \<rparr>
         | None \<Rightarrow>
             (let st = st \<lparr> verses := [], deepDiveData := JNull, allEnrichmentData := JNull,
                            calls := calls st @ [GetChapterTextFromApi currentChapter safeTranslation] \<rparr>
              in case textResult of
                   Inl error \<Rightarrow> (catch_block currentChapter error st) \<lparr> isChapterLoading := False \<rparr>
                 | Inr chapterVerses \<Rightarrow>
                     (let deepDive = getChapterDeepDive deepReply;
                          enrichments = getAllChapterEnrichments enrichReply;
                          st = st \<lparr> verses := chapterVerses,
                                    calls := calls st @ [GetChapterDeepDive currentChapter,
                                                         GetAllChapterEnrichments currentChapter],
                                    deepDiveData := deepDive,
                                    allEnrichmentData := enrichments \<rparr>
                      in if chapterVerses \<noteq> [] \<and> truthy deepDive \<and> truthy enrichments then
                           (let dataToCache = \<lparr> cc_verses = chapterVerses, cc_deepDiveData = deepDive,
                                                 cc_allEnrichmentData = enrichments \<rparr>;
                                st = st \<lparr> updates := updates st
                                            @ [safeCachedContent(cacheKey \<mapsto> dataToCache)] \<rparr>
                            in case updateResult of
                                 None \<Rightarrow> st \<lparr> isChapterLoading := False \<rparr>
                               | Some error \<Rightarrow>
                                   (catch_block currentChapter error st) \<lparr> isChapterLoading := False \<rparr>)
                         else st \<lparr> isChapterLoading := False \<rparr>)))"

text \<open>Data for concrete runs: Genesis 1 with a deep dive and enrichments that are not empty.\<close>

definition genesis_1 :: ChapterIdentifier where
  "genesis_1 = \<lparr>book = ''Genesis'', chapter_no = Whole 1\<rparr>"

definition genesis_1_verses :: "Verse list" where
  "genesis_1_verses =
     [\<lparr> book_id = ''GEN'', book_name = ''Genesis'', verse_chapter = Whole 1, verse = 1,
        verse_text = ''In the beginning, God created the heavens and the earth.'' \<rparr>]"

definition sample_deep_dive :: json where
  "sample_deep_dive =
     JObj [(''summaryAndThemes'', JStr ''Creation''),
           (''historicalContext'', JStr ''Ancient Near East''),
           (''keyVerses'',
              JArr [JObj [(''verse'', JStr ''Genesis 1:1''), (''analysis'', JStr ''The opening claim'')]]),
           (''reflectionQuestions'', JArr [JStr ''What does rest mean?''])]"

definition sample_enrichments :: json where
  "sample_enrichments =
     JObj [(''crossReferences'',
              JArr [JObj [(''reference'', JStr ''John 1:1''), (''explanation'', JStr ''Echoes the opening''),
                          (''verse'', JNum 1)]]),
           (''wordStudies'', JArr []),
           (''historicalContext'',
              JObj [(''geography'', JStr ''Mesopotamia''), (''customs'', JStr []),
                    (''politicalClimate'', JStr [])]),
           (''literaryAnalysis'', JObj [(''structure'', JStr ''Seven days''), (''themes'', JArr [JStr ''order''])]),
           (''interpretations'', JArr [])]"

text \<open>A backend on which the profile row is not visible at any attempt.\<close>

definition row_not_found :: "nat \<Rightarrow> query_outcome" where
  "row_not_found attempt =
     QueryResolves None
       (Some \<lparr>err_code = ''PGRST116'', err_message = ''JSON object requested, multiple (or no) rows returned''\<rparr>)
       False"

text \<open>
  What a patch should hold according to a table of fields: for each field of the table that
  is not \<^verbatim>\<open>undefined\<close> in the update, its wire name with the field's value, in table order.
\<close>

definition patch_entry :: "obj \<Rightarrow> string \<times> string \<Rightarrow> obj" where
  "patch_entry data fw =
     (if js_get data (fst fw) \<noteq> JUndefined then [(snd fw, js_get data (fst fw))] else [])"

definition patch_of :: "obj \<Rightarrow> (string \<times> string) list \<Rightarrow> obj" where
  "patch_of data ws = concat (map (patch_entry data) ws)"

section \<open>Cache keys\<close>

lemma replace_spaces_pointwise:
  "list_all2 (\<lambda>x y. x = y \<or> (is_space x \<and> is_space y)) a b \<Longrightarrow> replace_spaces a = replace_spaces b"
  by (induction a b rule: list_all2_induct) (auto simp: replace_spaces_def)

text \<open>
  C7 (as stated, refuted). The names \<^verbatim>\<open>"1 Samuel"\<close> and \<^verbatim>\<open>"1  Samuel"\<close> consist of the
  same non-whitespace characters in the same order and differ only in the amount of
  whitespace between the two words; the keys built from them differ, because each
  whitespace character is replaced on its own and runs are not collapsed.
\<close>

theorem getCacheKey_whitespace_counterexample:
  "filter (\<lambda>c. \<not> is_space c) ''1 Samuel'' = filter (\<lambda>c. \<not> is_space c) ''1  Samuel''
   \<and> getCacheKey \<lparr>book = ''1 Samuel'', chapter_no = Whole 1\<rparr> ''web'' = ''1_Samuel-1-web''
   \<and> getCacheKey \<lparr>book = ''1  Samuel'', chapter_no = Whole 1\<rparr> ''web'' = ''1__Samuel-1-web''
   \<and> getCacheKey \<lparr>book = ''1 Samuel'', chapter_no = Whole 1\<rparr> ''web''
       \<noteq> getCacheKey \<lparr>book = ''1  Samuel'', chapter_no = Whole 1\<rparr> ''web''"
  by (simp add: getCacheKey_def replace_spaces_def is_space_def decimal_def
      string_of_nat.simps digit_char_def)

text \<open>
  C7 (amended). The key is a function of the triple alone: it is the book name with every
  whitespace character replaced by one \<^verbatim>\<open>_\<close> and every other character kept, followed by
  \<^verbatim>\<open>-\<close>, the chapter number as the platform prints it, \<^verbatim>\<open>-\<close> and the translation. The
  replacement works position by position, so the first characters of the key are as many
  as the book name has: a run of whitespace gives a run of underscores and nothing is
  trimmed. For the same chapter and translation, two book names give the same key exactly
  when they are equal after that replacement; in particular they do when they have the
  same length and agree at every position except where both hold a whitespace character
  of whichever kind.
\<close>

theorem getCacheKey_replaces_each_space:
  "getCacheKey \<lparr>book = b, chapter_no = n\<rparr> t
     = map (\<lambda>c. if is_space c then CHR ''_'' else c) b @ ''-'' @ number_text n @ ''-'' @ t
   \<and> (\<forall>i < length b. getCacheKey \<lparr>book = b, chapter_no = n\<rparr> t ! i
          = (if is_space (b ! i) then CHR ''_'' else b ! i))
   \<and> drop (length b) (getCacheKey \<lparr>book = b, chapter_no = n\<rparr> t) = ''-'' @ number_text n @ ''-'' @ t
   \<and> (getCacheKey \<lparr>book = b1, chapter_no = n\<rparr> t = getCacheKey \<lparr>book = b2, chapter_no = n\<rparr> t
        \<longleftrightarrow> map (\<lambda>c. if is_space c then CHR ''_'' else c) b1
              = map (\<lambda>c. if is_space c then CHR ''_'' else c) b2)
   \<and> (list_all2 (\<lambda>x y. x = y \<or> (is_space x \<and> is_space y)) b1 b2
        \<longrightarrow> getCacheKey \<lparr>book = b1, chapter_no = n\<rparr> t = getCacheKey \<lparr>book = b2, chapter_no = n\<rparr> t)"
proof (intro conjI allI impI)
  show "getCacheKey \<lparr>book = b, chapter_no = n\<rparr> t
     = map (\<lambda>c. if is_space c then CHR ''_'' else c) b @ ''-'' @ number_text n @ ''-'' @ t"
    by (simp add: getCacheKey_def replace_spaces_def)
  show "getCacheKey \<lparr>book = b, chapter_no = n\<rparr> t ! i
          = (if is_space (b ! i) then CHR ''_'' else b ! i)" if "i < length b" for i
    using that by (simp add: getCacheKey_def replace_spaces_def nth_append)
  show "drop (length b) (getCacheKey \<lparr>book = b, chapter_no = n\<rparr> t) = ''-'' @ number_text n @ ''-'' @ t"
    by (simp add: getCacheKey_def replace_spaces_def)
  show "getCacheKey \<lparr>book = b1, chapter_no = n\<rparr> t = getCacheKey \<lparr>book = b2, chapter_no = n\<rparr> t
        \<longleftrightarrow> map (\<lambda>c. if is_space c then CHR ''_'' else c) b1
              = map (\<lambda>c. if is_space c then CHR ''_'' else c) b2"
    by (simp add: getCacheKey_def replace_spaces_def)
  show "getCacheKey \<lparr>book = b1, chapter_no = n\<rparr> t = getCacheKey \<lparr>book = b2, chapter_no = n\<rparr> t"
    if "list_all2 (\<lambda>x y. x = y \<or> (is_space x \<and> is_space y)) b1 b2"
  proof -
    from that have "replace_spaces b1 = replace_spaces b2" by (rule replace_spaces_pointwise)
    then show ?thesis by (simp add: getCacheKey_def)
  qed
qed

theorem getCacheKey_replaces_each_space_witness:
  "list_all2 (\<lambda>x y. x = y \<or> (is_space x \<and> is_space y))
     (''1'' @ [CHR 0x20] @ ''Samuel'') (''1'' @ [CHR 0x09] @ ''Samuel'')
   \<and> getCacheKey \<lparr>book = ''1'' @ [CHR 0x20] @ ''Samuel'', chapter_no = Whole 31\<rparr> ''kjv''
       = ''1_Samuel-31-kjv''
   \<and> getCacheKey \<lparr>book = ''1'' @ [CHR 0x09] @ ''Samuel'', chapter_no = Whole 31\<rparr> ''kjv''
       = ''1_Samuel-31-kjv''
   \<and> getCacheKey \<lparr>book = '' Song  of Solomon '', chapter_no = Other ''1e+21''\<rparr> ''web''
       = ''_Song__of_Solomon_-1e+21-web''"
proof -
  have h: "list_all2 (\<lambda>x y. x = y \<or> (is_space x \<and> is_space y))
     (''1'' @ [CHR 0x20] @ ''Samuel'') (''1'' @ [CHR 0x09] @ ''Samuel'')"
    by (simp add: is_space_def)
  have d: "decimal 31 = ''31''"
    by (simp add: decimal_def string_of_nat.simps digit_char_def)
  note t1 = getCacheKey_replaces_each_space
    [where b = "''1'' @ [CHR 0x20] @ ''Samuel''" and n = "Whole 31" and t = "''kjv''"
       and ?b1.0 = "''1'' @ [CHR 0x20] @ ''Samuel''" and ?b2.0 = "''1'' @ [CHR 0x09] @ ''Samuel''"]
  from t1 have k1: "getCacheKey \<lparr>book = ''1'' @ [CHR 0x20] @ ''Samuel'', chapter_no = Whole 31\<rparr> ''kjv''
       = map (\<lambda>c. if is_space c then CHR ''_'' else c) (''1'' @ [CHR 0x20] @ ''Samuel'')
         @ ''-'' @ number_text (Whole 31) @ ''-'' @ ''kjv''"
    by (rule conjunct1)
  have k1': "getCacheKey \<lparr>book = ''1'' @ [CHR 0x20] @ ''Samuel'', chapter_no = Whole 31\<rparr> ''kjv''
       = ''1_Samuel-31-kjv''"
    unfolding k1 by (simp add: d is_space_def)
  from t1 h
  have "getCacheKey \<lparr>book = ''1'' @ [CHR 0x20] @ ''Samuel'', chapter_no = Whole 31\<rparr> ''kjv''
      = getCacheKey \<lparr>book = ''1'' @ [CHR 0x09] @ ''Samuel'', chapter_no = Whole 31\<rparr> ''kjv''"
    by blast
  with k1' have k2: "getCacheKey \<lparr>book = ''1'' @ [CHR 0x09] @ ''Samuel'', chapter_no = Whole 31\<rparr> ''kjv''
       = ''1_Samuel-31-kjv''"
    by simp
  from getCacheKey_replaces_each_space
    [where b = "'' Song  of Solomon ''" and n = "Other ''1e+21''" and t = "''web''"]
  have k3: "getCacheKey \<lparr>book = '' Song  of Solomon '', chapter_no = Other ''1e+21''\<rparr> ''web''
       = map (\<lambda>c. if is_space c then CHR ''_'' else c) '' Song  of Solomon ''
         @ ''-'' @ number_text (Other ''1e+21'') @ ''-'' @ ''web''"
    by (rule conjunct1)
  have k3': "getCacheKey \<lparr>book = '' Song  of Solomon '', chapter_no = Other ''1e+21''\<rparr> ''web''
       = ''_Song__of_Solomon_-1e+21-web''"
    unfolding k3 by (simp add: is_space_def)
  from h k1' k2 k3' show ?thesis by simp
qed

section \<open>Encoding partial updates\<close>

lemma update_fresh: "k \<notin> fst ` set al \<Longrightarrow> AList.update k v al = al @ [(k, v)]"
  by (induction al) auto

lemma keys_patch_of:
  "map fst (patch_of data ws) = map snd (filter (\<lambda>fw. js_get data (fst fw) \<noteq> JUndefined) ws)"
  by (induction ws) (auto simp: patch_of_def patch_entry_def)

lemma assign_step:
  assumes "w \<notin> snd ` set ws"
  shows "assign_defined f w data (patch_of data ws) = patch_of data (ws @ [(f, w)])"
proof -
  have "set (map fst (patch_of data ws)) \<subseteq> set (map snd ws)"
    unfolding keys_patch_of by auto
  with assms have "w \<notin> fst ` set (patch_of data ws)" by auto
  then show ?thesis
    by (simp add: assign_defined_def update_fresh) (simp add: patch_of_def patch_entry_def)
qed

lemma toSupabase_patch_of: "toSupabase data = patch_of data wire_names"
proof -
  have nil: "([]::obj) = patch_of data []" by (simp add: patch_of_def)
  show ?thesis
    unfolding toSupabase_def Let_def wire_names_def
    apply (subst nil)
    apply (simp add: assign_step)
    done
qed

lemma patch_of_Cons: "patch_of d (a # ws) = patch_entry d a @ patch_of d ws"
  by (simp add: patch_of_def)

lemma patch_entry_single:
  "patch_entry [(f, v)] (g, w) = (if g = f \<and> v \<noteq> JUndefined then [(w, v)] else [])"
  by (simp add: patch_entry_def js_get_def)

lemma patch_of_absent: "f \<notin> fst ` set ws \<Longrightarrow> patch_of [(f, v)] ws = []"
proof (induction ws)
  case Nil
  show ?case by (simp add: patch_of_def)
next
  case (Cons a ws)
  obtain g w where a: "a = (g, w)" by (cases a)
  from Cons.prems a have "g \<noteq> f" and "f \<notin> fst ` set ws" by auto
  with Cons.IH show ?case by (simp add: a patch_of_Cons patch_entry_single)
qed

lemma patch_of_single:
  "distinct (map fst ws) \<Longrightarrow> (f, w) \<in> set ws \<Longrightarrow> v \<noteq> JUndefined
   \<Longrightarrow> patch_of [(f, v)] ws = [(w, v)]"
proof (induction ws)
  case Nil
  then show ?case by simp
next
  case (Cons a ws)
  obtain g w' where a: "a = (g, w')" by (cases a)
  show ?case
  proof (cases "a = (f, w)")
    case True
    with Cons.prems(1) have "f \<notin> fst ` set ws" by simp
    then have "patch_of [(f, v)] ws = []" by (rule patch_of_absent)
    with True Cons.prems(3) show ?thesis
      by (simp add: patch_of_Cons patch_entry_single)
  next
    case False
    with Cons.prems(2) have in_ws: "(f, w) \<in> set ws" by simp
    then have "f \<in> fst ` set ws" by (rule image_eqI[rotated]) simp
    with Cons.prems(1) a have "g \<noteq> f" by auto
    from Cons.prems(1) have "distinct (map fst ws)" by simp
    then have "patch_of [(f, v)] ws = [(w, v)]" using in_ws Cons.prems(3) by (rule Cons.IH)
    with \<open>g \<noteq> f\<close> show ?thesis
      by (simp add: a patch_of_Cons patch_entry_single)
  qed
qed

lemma distinct_wire_names: "distinct (map fst wire_names)"
  by (simp add: wire_names_def)

text \<open>
  C6 (as stated, refuted). \<^verbatim>\<open>UserData\<close> has eleven fields and \<^verbatim>\<open>toSupabase\<close> handles nine of
  them. A partial update that holds only the field \<^verbatim>\<open>id\<close> (or only \<^verbatim>\<open>updated_at\<close>) gives
  the empty patch, not a patch whose only key is that field's wire name.
\<close>

theorem toSupabase_id_counterexample:
  "js_get [(''id'', JStr ''u1'')] ''id'' \<noteq> JUndefined
   \<and> toSupabase [(''id'', JStr ''u1'')] = []
   \<and> js_get [(''updated_at'', JStr ''2024-01-01T00:00:00Z'')] ''updated_at'' \<noteq> JUndefined
   \<and> toSupabase [(''updated_at'', JStr ''2024-01-01T00:00:00Z'')] = []"
  by (simp add: toSupabase_def js_get_def assign_defined_def)

text \<open>
  C6 (amended). For the nine fields of \<^const>\<open>wire_names\<close> (username, studyMode,
  readThroughIndex, userSelectedChapter, completedChapters, bookmarks, notes,
  cachedContent, translation) the keys of the patch are exactly the wire names of the
  fields that are not \<^verbatim>\<open>undefined\<close> in the update, each key carries the field's value, and
  an update holding only one of these fields gives the patch with that single entry.
  The fields \<^verbatim>\<open>id\<close> and \<^verbatim>\<open>updated_at\<close> never reach the patch.
\<close>

theorem toSupabase_present_fields:
  "map fst (toSupabase data)
     = map snd (filter (\<lambda>fw. js_get data (fst fw) \<noteq> JUndefined) wire_names)
   \<and> (\<forall>fw \<in> set wire_names. js_get data (fst fw) \<noteq> JUndefined
          \<longrightarrow> (snd fw, js_get data (fst fw)) \<in> set (toSupabase data))
   \<and> (\<forall>f w v. (f, w) \<in> set wire_names \<longrightarrow> v \<noteq> JUndefined \<longrightarrow> toSupabase [(f, v)] = [(w, v)])
   \<and> ''id'' \<notin> fst ` set (toSupabase data) \<and> ''updated_at'' \<notin> fst ` set (toSupabase data)"
proof (intro conjI allI impI ballI)
  show keys: "map fst (toSupabase data)
     = map snd (filter (\<lambda>fw. js_get data (fst fw) \<noteq> JUndefined) wire_names)"
    by (simp add: toSupabase_patch_of keys_patch_of)
  have "set (map fst (toSupabase data)) \<subseteq> set (map snd wire_names)"
    unfolding keys by auto
  then have sub: "fst ` set (toSupabase data) \<subseteq> snd ` set wire_names" by simp
  have "''id'' \<notin> snd ` set wire_names" "''updated_at'' \<notin> snd ` set wire_names"
    by (simp_all add: wire_names_def)
  with sub show "''id'' \<notin> fst ` set (toSupabase data)" "''updated_at'' \<notin> fst ` set (toSupabase data)"
    by blast+
next
  fix fw assume "fw \<in> set wire_names" "js_get data (fst fw) \<noteq> JUndefined"
  then show "(snd fw, js_get data (fst fw)) \<in> set (toSupabase data)"
    by (auto simp: toSupabase_patch_of patch_of_def patch_entry_def)
next
  fix f w v assume "(f, w) \<in> set wire_names" "v \<noteq> JUndefined"
  then show "toSupabase [(f, v)] = [(w, v)]"
    unfolding toSupabase_patch_of by (rule patch_of_single[OF distinct_wire_names])
qed

theorem toSupabase_present_fields_witness:
  "map fst (toSupabase [(''notes'', JObj []), (''id'', JStr ''u1''), (''translation'', JStr ''kjv'')])
     = [''notes'', ''translation'']
   \<and> (''bookmarks'', ''bookmarks'') \<in> set wire_names \<and> JArr [] \<noteq> JUndefined
   \<and> toSupabase [(''bookmarks'', JArr [])] = [(''bookmarks'', JArr [])]"
proof -
  have m: "(''bookmarks'', ''bookmarks'') \<in> set wire_names" by (simp add: wire_names_def)
  note t = toSupabase_present_fields
    [of "[(''notes'', JObj []), (''id'', JStr ''u1''), (''translation'', JStr ''kjv'')]"]
  from t have "toSupabase [(''bookmarks'', JArr [])] = [(''bookmarks'', JArr [])]"
    using m by blast
  moreover from t
  have "map fst (toSupabase [(''notes'', JObj []), (''id'', JStr ''u1''), (''translation'', JStr ''kjv'')])
     = [''notes'', ''translation'']"
    by (simp add: wire_names_def js_get_def)
  ultimately show ?thesis using m by simp
qed

section \<open>Decoding profile rows\<close>

text \<open>
  C2 (as stated, refuted). A row whose \<^verbatim>\<open>study_mode\<close> is a string outside the enumeration
  decodes to that string, and a row whose \<^verbatim>\<open>notes\<close> or \<^verbatim>\<open>cached_content\<close> is a truthy value
  that is not an object decodes to that value: \<^verbatim>\<open>||\<close> replaces only falsy values.
\<close>

theorem fromSupabase_wrong_type_counterexample:
  "studyMode (fromSupabase [(''id'', JStr ''u1''), (''study_mode'', JStr ''Speed Run'')]) = JStr ''Speed Run''
   \<and> \<not> isStudyMode (JStr ''Speed Run'')
   \<and> notes_field (fromSupabase [(''id'', JStr ''u1''), (''notes'', JStr ''n/a'')]) = JStr ''n/a''
   \<and> \<not> isObject (JStr ''n/a'')
   \<and> cachedContent (fromSupabase [(''id'', JStr ''u1''), (''cached_content'', JNum 7)]) = JNum 7
   \<and> \<not> isObject (JNum 7)"
  by (simp add: fromSupabase_def js_get_def js_or_def isStudyMode_def
      RANDOM_def BOOK_def READ_THROUGH_def BOOKMARKS_def SCRIPTURE_READER_def)

text \<open>
  C2 (amended). \<^const>\<open>fromSupabase\<close> is defined on every row object. Both array fields
  are arrays whatever the row holds (the empty array replaces anything that is not an
  array), and the selected chapter is \<^verbatim>\<open>null\<close> or has passed the shape check. For the
  display name, the study mode, the two object fields and the translation the documented
  default replaces a missing or falsy wire value (\<^verbatim>\<open>undefined\<close>, \<^verbatim>\<open>null\<close>, \<^verbatim>\<open>''\<close>, \<^verbatim>\<open>0\<close>,
  \<^verbatim>\<open>false\<close>) and every other value passes through unchanged. So the study mode is a
  member of the enumeration when the wire value is missing, falsy or a member, and an
  object field is an object when the wire value is missing, falsy or an object.
\<close>

theorem fromSupabase_defaults:
  "isArray (completedChapters (fromSupabase p)) \<and> isArray (bookmarks (fromSupabase p))
   \<and> (\<not> isArray (js_get p ''completed_chapters'') \<longrightarrow> completedChapters (fromSupabase p) = JArr [])
   \<and> (\<not> isArray (js_get p ''bookmarks'') \<longrightarrow> bookmarks (fromSupabase p) = JArr [])
   \<and> (userSelectedChapter (fromSupabase p) = JNull
        \<or> isChapterIdentifier (userSelectedChapter (fromSupabase p)))
   \<and> username (fromSupabase p)
        = (if truthy (js_get p ''username'') then js_get p ''username'' else JStr ''User'')
   \<and> studyMode (fromSupabase p)
        = (if truthy (js_get p ''study_mode'') then js_get p ''study_mode'' else READ_THROUGH)
   \<and> notes_field (fromSupabase p)
        = (if truthy (js_get p ''notes'') then js_get p ''notes'' else JObj [])
   \<and> cachedContent (fromSupabase p)
        = (if truthy (js_get p ''cached_content'') then js_get p ''cached_content'' else JObj [])
   \<and> translation (fromSupabase p)
        = (if truthy (js_get p ''translation'') then js_get p ''translation'' else JStr ''web'')
   \<and> (\<not> truthy (js_get p ''study_mode'') \<or> isStudyMode (js_get p ''study_mode'')
        \<longrightarrow> isStudyMode (studyMode (fromSupabase p)))
   \<and> (\<not> truthy (js_get p ''notes'') \<or> isObject (js_get p ''notes'')
        \<longrightarrow> isObject (notes_field (fromSupabase p)))
   \<and> (\<not> truthy (js_get p ''cached_content'') \<or> isObject (js_get p ''cached_content'')
        \<longrightarrow> isObject (cachedContent (fromSupabase p)))"
proof -
  have rt: "isStudyMode READ_THROUGH" by (simp add: isStudyMode_def)
  show ?thesis
    by (auto simp: fromSupabase_def Let_def js_or_def rt)
qed

theorem fromSupabase_defaults_witness:
  "\<not> isArray (js_get [(''id'', JStr ''u1''), (''notes'', JNull), (''completed_chapters'', JObj [])]
        ''completed_chapters'')
   \<and> \<not> truthy (js_get [(''id'', JStr ''u1''), (''notes'', JNull), (''completed_chapters'', JObj [])]
        ''notes'')
   \<and> fromSupabase [(''id'', JStr ''u1''), (''notes'', JNull), (''completed_chapters'', JObj [])]
       = \<lparr> id_field = JStr ''u1'', username = JStr ''User'', studyMode = JStr ''Read Through'',
           readThroughIndex = JNum 0, userSelectedChapter = JNull, completedChapters = JArr [],
           bookmarks = JArr [], notes_field = JObj [], cachedContent = JObj [],
           translation = JStr ''web'', updated_at = JUndefined \<rparr>
   \<and> isStudyMode (studyMode
         (fromSupabase [(''id'', JStr ''u1''), (''notes'', JNull), (''completed_chapters'', JObj [])]))
   \<and> isObject (notes_field
         (fromSupabase [(''id'', JStr ''u1''), (''notes'', JNull), (''completed_chapters'', JObj [])]))"
proof -
  have row: "fromSupabase [(''id'', JStr ''u1''), (''notes'', JNull), (''completed_chapters'', JObj [])]
       = \<lparr> id_field = JStr ''u1'', username = JStr ''User'', studyMode = JStr ''Read Through'',
           readThroughIndex = JNum 0, userSelectedChapter = JNull, completedChapters = JArr [],
           bookmarks = JArr [], notes_field = JObj [], cachedContent = JObj [],
           translation = JStr ''web'', updated_at = JUndefined \<rparr>"
    by (simp add: fromSupabase_def js_get_def js_or_def js_nullish_def isChapterIdentifier_def
        READ_THROUGH_def)
  have f: "\<not> truthy (js_get [(''id'', JStr ''u1''), (''notes'', JNull), (''completed_chapters'', JObj [])]
        ''notes'')"
    "\<not> truthy (js_get [(''id'', JStr ''u1''), (''notes'', JNull), (''completed_chapters'', JObj [])]
        ''study_mode'')"
    "\<not> isArray (js_get [(''id'', JStr ''u1''), (''notes'', JNull), (''completed_chapters'', JObj [])]
        ''completed_chapters'')"
    by (simp_all add: js_get_def)
  note t = fromSupabase_defaults
    [of "[(''id'', JStr ''u1''), (''notes'', JNull), (''completed_chapters'', JObj [])]"]
  from t f have "isStudyMode (studyMode
         (fromSupabase [(''id'', JStr ''u1''), (''notes'', JNull), (''completed_chapters'', JObj [])]))"
    by blast
  moreover from t f have "isObject (notes_field
         (fromSupabase [(''id'', JStr ''u1''), (''notes'', JNull), (''completed_chapters'', JObj [])]))"
    by blast
  ultimately show ?thesis using row f by simp
qed

section \<open>The chapter pipeline: cache writes and fallbacks\<close>

lemma starts_with_iff: "starts_with s p \<longleftrightarrow> (\<exists>b. s = p @ b)"
  by (induction s p rule: starts_with.induct) auto

lemma str_includes_iff: "str_includes s p \<longleftrightarrow> (\<exists>a b. s = a @ p @ b)"
proof (induction s)
  case Nil
  then show ?case by auto
next
  case (Cons c cs)
  show ?case
  proof
    assume "str_includes (c # cs) p"
    then consider "starts_with (c # cs) p" | "str_includes cs p" by auto
    then show "\<exists>a b. c # cs = a @ p @ b"
    proof cases
      case 1
      then obtain b where "c # cs = p @ b" by (auto simp: starts_with_iff)
      then have "c # cs = [] @ p @ b" by simp
      then show ?thesis by blast
    next
      case 2
      with Cons.IH obtain a b where "cs = a @ p @ b" by auto
      then have "c # cs = (c # a) @ p @ b" by simp
      then show ?thesis by blast
    qed
  next
    assume "\<exists>a b. c # cs = a @ p @ b"
    then obtain a b where ab: "c # cs = a @ p @ b" by auto
    show "str_includes (c # cs) p"
    proof (cases a)
      case Nil
      with ab have "starts_with (c # cs) p" by (auto simp: starts_with_iff)
      then show ?thesis by simp
    next
      case (Cons x xs)
      with ab have "cs = xs @ p @ b" by simp
      with Cons.IH have "str_includes cs p" by auto
      then show ?thesis by simp
    qed
  qed
qed

lemma genesis_1_key: "getCacheKey genesis_1 ''web'' = ''Genesis-1-web''"
  by (simp add: getCacheKey_def genesis_1_def replace_spaces_def is_space_def decimal_def
      string_of_nat.simps digit_char_def)

text \<open>
  The updates of a run, in general: one update, the old mapping with the key set to the
  new bundle, when the key misses the cache, the verse list is not empty and both results
  are truthy; none otherwise.
\<close>

lemma fetch_updates:
  "updates (fetchAllChapterData ch tr cache textR dr er upd st0) =
   updates st0 @
     (if cache (getCacheKey ch tr) = None \<and> (\<exists>vs. textR = Inr vs \<and> vs \<noteq> [])
         \<and> truthy (getChapterDeepDive dr) \<and> truthy (getAllChapterEnrichments er)
      then [cache(getCacheKey ch tr \<mapsto>
              \<lparr> cc_verses = projr textR,
                cc_deepDiveData = getChapterDeepDive dr,
                cc_allEnrichmentData = getAllChapterEnrichments er \<rparr>)]
      else [])"
  by (auto simp: fetchAllChapterData_def Let_def catch_block_def split: option.splits sum.splits)

text \<open>
  C1 (what the code does). For Genesis 1 with an empty cache the text service returns
  the verses and the deep dive arrives, but the enrichment request fails.
  \<^verbatim>\<open>getAllChapterEnrichments\<close> answers the failure with the all-empty object, which is
  truthy, so the run passes the test before the write and issues one profile update: the
  bundle is cached with empty enrichments, although the enrichment fetch did not succeed.
  A later visit finds that bundle, makes no service call and shows the empty enrichments.
\<close>

theorem fetchAllChapterData_caches_failed_enrichment:
  "getAllChapterEnrichments (AiFails (JsError ''503 Service Unavailable'')) = emptyEnrichments
   \<and> truthy emptyEnrichments
   \<and> updates (fetchAllChapterData genesis_1 ''web'' Map.empty (Inr genesis_1_verses)
        (AiJson sample_deep_dive) (AiFails (JsError ''503 Service Unavailable'')) None initial)
     = [Map.empty(''Genesis-1-web'' \<mapsto>
          \<lparr> cc_verses = genesis_1_verses, cc_deepDiveData = sample_deep_dive,
            cc_allEnrichmentData = emptyEnrichments \<rparr>)]
   \<and> calls (fetchAllChapterData genesis_1 ''web''
        (Map.empty(''Genesis-1-web'' \<mapsto>
           \<lparr> cc_verses = genesis_1_verses, cc_deepDiveData = sample_deep_dive,
             cc_allEnrichmentData = emptyEnrichments \<rparr>))
        (Inr genesis_1_verses) (AiJson sample_deep_dive) (AiJson sample_enrichments) None initial)
     = []
   \<and> allEnrichmentData (fetchAllChapterData genesis_1 ''web''
        (Map.empty(''Genesis-1-web'' \<mapsto>
           \<lparr> cc_verses = genesis_1_verses, cc_deepDiveData = sample_deep_dive,
             cc_allEnrichmentData = emptyEnrichments \<rparr>))
        (Inr genesis_1_verses) (AiJson sample_deep_dive) (AiJson sample_enrichments) None initial)
     = emptyEnrichments"
proof -
  have v: "genesis_1_verses \<noteq> []" by (simp add: genesis_1_verses_def)
  have d: "truthy sample_deep_dive" by (simp add: sample_deep_dive_def)
  have e: "truthy emptyEnrichments" by (simp add: emptyEnrichments_def)
  have w: "updates (fetchAllChapterData genesis_1 ''web'' Map.empty (Inr genesis_1_verses)
        (AiJson sample_deep_dive) (AiFails (JsError ''503 Service Unavailable'')) None initial)
     = [Map.empty(''Genesis-1-web'' \<mapsto>
          \<lparr> cc_verses = genesis_1_verses, cc_deepDiveData = sample_deep_dive,
            cc_allEnrichmentData = emptyEnrichments \<rparr>)]"
    unfolding fetch_updates using v d e
    by (simp add: genesis_1_key initial_def getChapterDeepDive_def getAllChapterEnrichments_def)
  have h: "calls (fetchAllChapterData genesis_1 ''web''
        (Map.empty(''Genesis-1-web'' \<mapsto>
           \<lparr> cc_verses = genesis_1_verses, cc_deepDiveData = sample_deep_dive,
             cc_allEnrichmentData = emptyEnrichments \<rparr>))
        (Inr genesis_1_verses) (AiJson sample_deep_dive) (AiJson sample_enrichments) None initial)
     = []
   \<and> allEnrichmentData (fetchAllChapterData genesis_1 ''web''
        (Map.empty(''Genesis-1-web'' \<mapsto>
           \<lparr> cc_verses = genesis_1_verses, cc_deepDiveData = sample_deep_dive,
             cc_allEnrichmentData = emptyEnrichments \<rparr>))
        (Inr genesis_1_verses) (AiJson sample_deep_dive) (AiJson sample_enrichments) None initial)
     = emptyEnrichments"
    by (simp add: fetchAllChapterData_def Let_def genesis_1_key initial_def)
  from w h e show ?thesis by (simp add: getAllChapterEnrichments_def)
qed

text \<open>
  Two runs beside it. With all three services answering, the bundle is written once. With
  the deep dive failing, which \<^verbatim>\<open>getChapterDeepDive\<close> answers with \<^verbatim>\<open>null\<close>, nothing is written.
\<close>

lemma fetchAllChapterData_full_success_example:
  "updates (fetchAllChapterData genesis_1 ''web'' Map.empty (Inr genesis_1_verses)
        (AiJson sample_deep_dive) (AiJson sample_enrichments) None initial)
     = [Map.empty(''Genesis-1-web'' \<mapsto>
          \<lparr> cc_verses = genesis_1_verses, cc_deepDiveData = sample_deep_dive,
            cc_allEnrichmentData = sample_enrichments \<rparr>)]
   \<and> updates (fetchAllChapterData genesis_1 ''web'' Map.empty (Inr genesis_1_verses)
        (AiFails (JsError ''503 Service Unavailable'')) (AiJson sample_enrichments) None initial)
     = []"
proof -
  have v: "genesis_1_verses \<noteq> []" by (simp add: genesis_1_verses_def)
  have d: "truthy sample_deep_dive" by (simp add: sample_deep_dive_def)
  have e: "truthy sample_enrichments" by (simp add: sample_enrichments_def)
  show ?thesis
    unfolding fetch_updates using v d e
    by (simp add: genesis_1_key initial_def getChapterDeepDive_def getAllChapterEnrichments_def)
qed

text \<open>
  C4 (what the code does). The text service throws a quota error for Genesis 1 while the
  generative service would answer both requests with real content. The run makes the
  text call only: neither generative call is issued, the enrichments shown are the empty
  object and not the content, and no deep dive is shown. The verse list holds the one
  entry numbered 0 with the quota message, and nothing is written to the cache.
\<close>

theorem fetchAllChapterData_text_failure_skips_enrichment:
  "calls (fetchAllChapterData genesis_1 ''web'' Map.empty (Inl (JsError ''API quota exceeded''))
            (AiJson sample_deep_dive) (AiJson sample_enrichments) None initial)
     = [GetChapterTextFromApi genesis_1 ''web'']
   \<and> allEnrichmentData (fetchAllChapterData genesis_1 ''web'' Map.empty (Inl (JsError ''API quota exceeded''))
            (AiJson sample_deep_dive) (AiJson sample_enrichments) None initial)
     = emptyEnrichments
   \<and> sample_enrichments \<noteq> emptyEnrichments
   \<and> getAllChapterEnrichments (AiJson sample_enrichments) = sample_enrichments
   \<and> deepDiveData (fetchAllChapterData genesis_1 ''web'' Map.empty (Inl (JsError ''API quota exceeded''))
            (AiJson sample_deep_dive) (AiJson sample_enrichments) None initial)
     = JNull
   \<and> verses (fetchAllChapterData genesis_1 ''web'' Map.empty (Inl (JsError ''API quota exceeded''))
            (AiJson sample_deep_dive) (AiJson sample_enrichments) None initial)
     = [\<lparr> book_id = [], book_name = ''Genesis'', verse_chapter = Whole 1, verse = 0,
          verse_text = ''Failed to load chapter data: Daily API quota exceeded. Please try again tomorrow.'' \<rparr>]
   \<and> updates (fetchAllChapterData genesis_1 ''web'' Map.empty (Inl (JsError ''API quota exceeded''))
            (AiJson sample_deep_dive) (AiJson sample_enrichments) None initial)
     = []"
  by (simp add: fetchAllChapterData_def Let_def catch_block_def initial_def genesis_1_def
      errorMessage_def getAllChapterEnrichments_def
      sample_enrichments_def emptyEnrichments_def)

text \<open>
  C5 (as stated, refuted). Both generative requests fail with a quota error while the
  text service returns the verses. The failures are caught inside the two service
  functions and never reach the pipeline: the verse list shown is the one the text
  service returned, with no entry numbered 0 and no message of any kind; the deep dive is
  \<^verbatim>\<open>null\<close> and the enrichments are the empty object.
\<close>

theorem fetchAllChapterData_ai_quota_counterexample:
  "str_includes ''You exceeded your current quota'' ''quota''
   \<and> verses (fetchAllChapterData genesis_1 ''web'' Map.empty (Inr genesis_1_verses)
        (AiFails (JsError ''You exceeded your current quota''))
        (AiFails (JsError ''You exceeded your current quota'')) None initial)
     = genesis_1_verses
   \<and> map verse genesis_1_verses = [1]
   \<and> map verse_text genesis_1_verses = [''In the beginning, God created the heavens and the earth.'']
   \<and> deepDiveData (fetchAllChapterData genesis_1 ''web'' Map.empty (Inr genesis_1_verses)
        (AiFails (JsError ''You exceeded your current quota''))
        (AiFails (JsError ''You exceeded your current quota'')) None initial)
     = JNull
   \<and> allEnrichmentData (fetchAllChapterData genesis_1 ''web'' Map.empty (Inr genesis_1_verses)
        (AiFails (JsError ''You exceeded your current quota''))
        (AiFails (JsError ''You exceeded your current quota'')) None initial)
     = emptyEnrichments"
  by (simp add: fetchAllChapterData_def Let_def initial_def genesis_1_verses_def
      getChapterDeepDive_def getAllChapterEnrichments_def)

text \<open>
  C5 (amended). Let the key miss the cache. When the text service throws, or the profile
  update throws after a full fetch, the verse list shown has exactly one element: verse
  number 0, the book and chapter of the request, an empty book id, and as text
  \<^verbatim>\<open>Failed to load chapter data: Daily API quota exceeded. Please try again tomorrow.\<close>
  when the thrown value is an \<^verbatim>\<open>Error\<close> whose message contains \<^verbatim>\<open>quota\<close>, the message
  \<^verbatim>\<open>There was an error loading the chapter text: \<close>\<open>m\<close>\<^verbatim>\<open>. Please try again.\<close> for an \<^verbatim>\<open>Error\<close>
  with any other message \<open>m\<close>, and the same with \<^verbatim>\<open>Unknown error\<close> for \<open>m\<close> when the thrown
  value is no \<^verbatim>\<open>Error\<close>; the enrichments shown are the object of three empty arrays, three
  empty strings, an empty structure string and an empty themes array. In every other
  run that misses the cache nothing is synthesized: the verses are those the text service
  returned and the deep dive and enrichments are what the two service functions
  returned. A failed generative request is not a throw for the pipeline: it is answered
  inside the service, the deep dive by \<^verbatim>\<open>null\<close> and the enrichments by the same all-empty
  object, and by itself it produces no message.
\<close>

theorem fetchAllChapterData_error_fallback:
  assumes "cache (getCacheKey ch tr) = None"
  shows "(textR = Inl e
            \<or> (\<exists>vs. textR = Inr vs \<and> vs \<noteq> [] \<and> truthy (getChapterDeepDive dr)
                  \<and> truthy (getAllChapterEnrichments er) \<and> upd = Some e)
          \<longrightarrow> verses (fetchAllChapterData ch tr cache textR dr er upd st0)
                = [\<lparr> book_id = [], book_name = book ch, verse_chapter = chapter_no ch, verse = 0,
                     verse_text =
                       (case e of
                          JsError m \<Rightarrow>
                            if \<exists>a b. m = a @ ''quota'' @ b
                            then ''Failed to load chapter data: Daily API quota exceeded. Please try again tomorrow.''
                            else ''There was an error loading the chapter text: '' @ m @ ''. Please try again.''
                        | NotAnError \<Rightarrow>
                            ''There was an error loading the chapter text: Unknown error. Please try again.'') \<rparr>]
              \<and> allEnrichmentData (fetchAllChapterData ch tr cache textR dr er upd st0)
                = JObj [(''crossReferences'', JArr []), (''wordStudies'', JArr []),
                        (''historicalContext'',
                           JObj [(''geography'', JStr []), (''customs'', JStr []),
                                 (''politicalClimate'', JStr [])]),
                        (''literaryAnalysis'', JObj [(''structure'', JStr []), (''themes'', JArr [])]),
                        (''interpretations'', JArr [])])
         \<and> (textR = Inr vs
              \<and> (upd = None \<or> vs = [] \<or> \<not> truthy (getChapterDeepDive dr)
                    \<or> \<not> truthy (getAllChapterEnrichments er))
          \<longrightarrow> verses (fetchAllChapterData ch tr cache textR dr er upd st0) = vs
              \<and> deepDiveData (fetchAllChapterData ch tr cache textR dr er upd st0) = getChapterDeepDive dr
              \<and> allEnrichmentData (fetchAllChapterData ch tr cache textR dr er upd st0)
                  = getAllChapterEnrichments er)
         \<and> getChapterDeepDive (AiFails x) = JNull
         \<and> getAllChapterEnrichments (AiFails x)
             = JObj [(''crossReferences'', JArr []), (''wordStudies'', JArr []),
                     (''historicalContext'',
                        JObj [(''geography'', JStr []), (''customs'', JStr []),
                              (''politicalClimate'', JStr [])]),
                     (''literaryAnalysis'', JObj [(''structure'', JStr []), (''themes'', JArr [])]),
                     (''interpretations'', JArr [])]"
proof -
  have msg: "errorMessage e =
      (case e of
         JsError m \<Rightarrow>
           if \<exists>a b. m = a @ ''quota'' @ b
           then ''Failed to load chapter data: Daily API quota exceeded. Please try again tomorrow.''
           else ''There was an error loading the chapter text: '' @ m @ ''. Please try again.''
       | NotAnError \<Rightarrow>
           ''There was an error loading the chapter text: Unknown error. Please try again.'')"
    by (cases e) (simp_all add: errorMessage_def str_includes_iff)
  have thrown: "verses (fetchAllChapterData ch tr cache textR dr er upd st0)
                = [\<lparr> book_id = [], book_name = book ch, verse_chapter = chapter_no ch, verse = 0,
                     verse_text = errorMessage e \<rparr>]
              \<and> allEnrichmentData (fetchAllChapterData ch tr cache textR dr er upd st0) = emptyEnrichments"
    if "textR = Inl e
            \<or> (\<exists>vs. textR = Inr vs \<and> vs \<noteq> [] \<and> truthy (getChapterDeepDive dr)
                  \<and> truthy (getAllChapterEnrichments er) \<and> upd = Some e)"
    using that assms by (auto simp: fetchAllChapterData_def Let_def catch_block_def)
  have quiet: "verses (fetchAllChapterData ch tr cache textR dr er upd st0) = vs
              \<and> deepDiveData (fetchAllChapterData ch tr cache textR dr er upd st0) = getChapterDeepDive dr
              \<and> allEnrichmentData (fetchAllChapterData ch tr cache textR dr er upd st0)
                  = getAllChapterEnrichments er"
    if "textR = Inr vs
              \<and> (upd = None \<or> vs = [] \<or> \<not> truthy (getChapterDeepDive dr)
                    \<or> \<not> truthy (getAllChapterEnrichments er))"
    using that assms by (auto simp: fetchAllChapterData_def Let_def)
  have svc: "getChapterDeepDive (AiFails x) = JNull"
    "getAllChapterEnrichments (AiFails x) = emptyEnrichments"
    by (simp_all add: getChapterDeepDive_def getAllChapterEnrichments_def)
  from thrown quiet svc show ?thesis
    unfolding msg [symmetric] emptyEnrichments_def [symmetric] by blast
qed

theorem fetchAllChapterData_error_fallback_witness:
  "(Map.empty :: string \<rightharpoonup> CachedChapterContent) (getCacheKey genesis_1 ''kjv'') = None
   \<and> verses (fetchAllChapterData genesis_1 ''kjv'' Map.empty
               (Inl (JsError ''API quota exceeded'')) (AiJson sample_deep_dive)
               (AiJson sample_enrichments) None initial)
       = [\<lparr> book_id = [], book_name = ''Genesis'', verse_chapter = Whole 1, verse = 0,
            verse_text = ''Failed to load chapter data: Daily API quota exceeded. Please try again tomorrow.'' \<rparr>]
   \<and> verses (fetchAllChapterData genesis_1 ''kjv'' Map.empty
               (Inl (JsError ''Passage not found in KJV. Please check the reference.''))
               (AiJson sample_deep_dive) (AiJson sample_enrichments) None initial)
       = [\<lparr> book_id = [], book_name = ''Genesis'', verse_chapter = Whole 1, verse = 0,
            verse_text = ''There was an error loading the chapter text: Passage not found in KJV. Please check the reference.. Please try again.'' \<rparr>]
   \<and> allEnrichmentData (fetchAllChapterData genesis_1 ''kjv'' Map.empty
               (Inl (JsError ''API quota exceeded'')) (AiJson sample_deep_dive)
               (AiJson sample_enrichments) None initial)
       = emptyEnrichments"
proof -
  have miss: "(Map.empty :: string \<rightharpoonup> CachedChapterContent) (getCacheKey genesis_1 ''kjv'') = None"
    by simp
  have q: "\<exists>a b. ''API quota exceeded'' = a @ ''quota'' @ b"
    unfolding str_includes_iff [symmetric] by simp
  have g: "\<not> (\<exists>a b. ''Passage not found in KJV. Please check the reference.'' = a @ ''quota'' @ b)"
    unfolding str_includes_iff [symmetric] by simp
  note t = fetchAllChapterData_error_fallback
    [where ch = genesis_1 and tr = "''kjv''" and cache = Map.empty, OF miss]
  from q t [where textR = "Inl (JsError ''API quota exceeded'')" and e = "JsError ''API quota exceeded''"
            and dr = "AiJson sample_deep_dive" and er = "AiJson sample_enrichments" and upd = None
            and ?st0.0 = initial]
  have 1: "verses (fetchAllChapterData genesis_1 ''kjv'' Map.empty
               (Inl (JsError ''API quota exceeded'')) (AiJson sample_deep_dive)
               (AiJson sample_enrichments) None initial)
       = [\<lparr> book_id = [], book_name = ''Genesis'', verse_chapter = Whole 1, verse = 0,
            verse_text = ''Failed to load chapter data: Daily API quota exceeded. Please try again tomorrow.'' \<rparr>]
     \<and> allEnrichmentData (fetchAllChapterData genesis_1 ''kjv'' Map.empty
               (Inl (JsError ''API quota exceeded'')) (AiJson sample_deep_dive)
               (AiJson sample_enrichments) None initial)
       = emptyEnrichments"
    by (simp add: genesis_1_def emptyEnrichments_def)
  from g t [where textR = "Inl (JsError ''Passage not found in KJV. Please check the reference.'')"
            and e = "JsError ''Passage not found in KJV. Please check the reference.''"
            and dr = "AiJson sample_deep_dive" and er = "AiJson sample_enrichments" and upd = None
            and ?st0.0 = initial]
  have 2: "verses (fetchAllChapterData genesis_1 ''kjv'' Map.empty
               (Inl (JsError ''Passage not found in KJV. Please check the reference.''))
               (AiJson sample_deep_dive) (AiJson sample_enrichments) None initial)
       = [\<lparr> book_id = [], book_name = ''Genesis'', verse_chapter = Whole 1, verse = 0,
            verse_text = ''There was an error loading the chapter text: Passage not found in KJV. Please check the reference.. Please try again.'' \<rparr>]"
    by (simp add: genesis_1_def)
  from miss 1 2 show ?thesis by simp
qed

section \<open>Retrying the profile fetch\<close>

lemma getUserData_single_query: "fst (getUserData backend) = [GetSession, Query 1]"
  unfolding getUserData_def
  by (subst attempts.simps)
     (simp add: after_try_scope_def split: query_outcome.splits option.splits)

text \<open>
  C3 (what the code does). On a backend that answers every query with "row not found",
  \<^verbatim>\<open>getUserData\<close> makes one query and then throws: the statement after the \<^verbatim>\<open>try\<close> block
  reads \<^verbatim>\<open>error\<close>, which is bound only inside the block. It does not sleep, does not query
  a second time and does not return \<^verbatim>\<open>null\<close>. On no backend does it query twice. With
  \<^verbatim>\<open>data\<close> and \<^verbatim>\<open>error\<close> visible after the block, the same text queries three times,
  sleeps 500 ms and 1000 ms in between and returns \<^verbatim>\<open>null\<close>.
\<close>

theorem getUserData_row_not_found:
  "getUserData row_not_found = ([GetSession, Query 1], Throws (ReferenceError ''error''))
   \<and> (\<forall>backend. fst (getUserData backend) = [GetSession, Query 1])
   \<and> getUserData_hoisted row_not_found
       = ([GetSession, Query 1, Delay 500, Query 2, Delay 1000, Query 3], Returns None)"
proof (intro conjI allI)
  show "getUserData row_not_found = ([GetSession, Query 1], Throws (ReferenceError ''error''))"
    by (simp add: getUserData_def attempts.simps row_not_found_def after_try_scope_def)
  show "fst (getUserData backend) = [GetSession, Query 1]" for backend
    by (rule getUserData_single_query)
  show "getUserData_hoisted row_not_found
       = ([GetSession, Query 1, Delay 500, Query 2, Delay 1000, Query 3], Returns None)"
    by (simp add: getUserData_hoisted_def attempts.simps row_not_found_def after_try_scope_def)
qed

section \<open>Reading local storage safely\<close>

text \<open>
  C8 (as stated, refuted). Two stores. In the first the blob is the empty string, which
  \<^verbatim>\<open>JSON.parse\<close> rejects: \<^verbatim>\<open>robustSafeParse\<close> returns the fallback for it, but leaves the key
  in the store and does not call the callback, because \<^verbatim>\<open>if (!raw) return fallback\<close> comes
  before the parse. In the second the blob is corrupt and the callback throws: the key is
  removed, the callback is called, and its exception leaves \<^verbatim>\<open>robustSafeParse\<close>, which
  returns no fallback, because the callback runs inside the \<^verbatim>\<open>catch\<close> handler.
\<close>

theorem robustSafeParse_empty_blob_counterexample:
  "json_parse_sample [] = None
   \<and> robustSafeParse json_parse_sample (Map.empty(''cachedContent'' \<mapsto> [])) ''cachedContent'' (JObj [])
        (Some CallbackReturns)
       = \<lparr> returned = Inr (JObj []), storage_after = Map.empty(''cachedContent'' \<mapsto> []), effects = [] \<rparr>
   \<and> (Map.empty(''cachedContent'' \<mapsto> [])) ''cachedContent'' \<noteq> (None :: string option)
   \<and> json_parse_sample ''{oops'' = None
   \<and> robustSafeParse json_parse_sample (Map.empty(''cachedContent'' \<mapsto> ''{oops'')) ''cachedContent''
        (JObj []) (Some (CallbackThrows (JsError ''setState on an unmounted component'')))
       = \<lparr> returned = Inl (JsError ''setState on an unmounted component''),
           storage_after = Map.empty, effects = [RemoveItem ''cachedContent'', OnCorrupt] \<rparr>"
  by (simp add: robustSafeParse_def json_parse_sample_def)

text \<open>
  C8 (amended). For a stored blob that is not empty and fails to parse, the key is removed
  and then the callback, if one was passed, is called exactly once; the fallback is
  returned unless that callback throws, and then what it threw leaves the function. For
  a stored blob that parses, the parsed value is returned, the store is unchanged and the
  callback is not called. For a missing key or an empty blob the fallback is returned and
  nothing else happens. With a readable store, a throwing callback on a corrupt blob is
  the only way an exception leaves the function: the parse error itself never does.
\<close>

theorem robustSafeParse_outcomes:
  "(store key = Some raw \<and> raw \<noteq> [] \<and> json_parse raw = None \<longrightarrow>
      robustSafeParse json_parse store key fallback onCorrupt
        = \<lparr> returned = (case onCorrupt of Some (CallbackThrows e) \<Rightarrow> Inl e | _ \<Rightarrow> Inr fallback),
            storage_after = store(key := None),
            effects = RemoveItem key # (if onCorrupt = None then [] else [OnCorrupt]) \<rparr>)
   \<and> (store key = Some raw \<and> raw \<noteq> [] \<and> json_parse raw = Some parsed \<longrightarrow>
      robustSafeParse json_parse store key fallback onCorrupt
        = \<lparr> returned = Inr parsed, storage_after = store, effects = [] \<rparr>)
   \<and> (store key = None \<or> store key = Some [] \<longrightarrow>
      robustSafeParse json_parse store key fallback onCorrupt
        = \<lparr> returned = Inr fallback, storage_after = store, effects = [] \<rparr>)
   \<and> ((\<exists>e. returned (robustSafeParse json_parse store key fallback onCorrupt) = Inl e)
        \<longleftrightarrow> (\<exists>raw e. store key = Some raw \<and> raw \<noteq> [] \<and> json_parse raw = None
                    \<and> onCorrupt = Some (CallbackThrows e)))"
  by (auto simp: robustSafeParse_def split: option.splits callback.splits)

theorem robustSafeParse_outcomes_witness:
  "(Map.empty(''cachedContent'' \<mapsto> ''{oops'')) ''cachedContent'' = Some ''{oops''
   \<and> ''{oops'' \<noteq> [] \<and> json_parse_sample ''{oops'' = None
   \<and> robustSafeParse json_parse_sample (Map.empty(''cachedContent'' \<mapsto> ''{oops'')) ''cachedContent''
        (JObj []) (Some CallbackReturns)
       = \<lparr> returned = Inr (JObj []), storage_after = Map.empty,
           effects = [RemoveItem ''cachedContent'', OnCorrupt] \<rparr>
   \<and> json_parse_sample ''{}'' = Some (JObj [])
   \<and> robustSafeParse json_parse_sample (Map.empty(''cachedContent'' \<mapsto> ''{}'')) ''cachedContent''
        JNull (Some CallbackReturns)
       = \<lparr> returned = Inr (JObj []), storage_after = Map.empty(''cachedContent'' \<mapsto> ''{}''), effects = [] \<rparr>"
proof -
  have bad: "(Map.empty(''cachedContent'' \<mapsto> ''{oops'')) ''cachedContent'' = Some ''{oops''
      \<and> ''{oops'' \<noteq> [] \<and> json_parse_sample ''{oops'' = None"
    by (simp add: json_parse_sample_def)
  have good: "(Map.empty(''cachedContent'' \<mapsto> ''{}'')) ''cachedContent'' = Some ''{}''
      \<and> ''{}'' \<noteq> [] \<and> json_parse_sample ''{}'' = Some (JObj [])"
    by (simp add: json_parse_sample_def)
  from bad robustSafeParse_outcomes
    [where json_parse = json_parse_sample and store = "Map.empty(''cachedContent'' \<mapsto> ''{oops'')"
       and key = "''cachedContent''" and raw = "''{oops''" and fallback = "JObj []"
       and onCorrupt = "Some CallbackReturns"]
  have 1: "robustSafeParse json_parse_sample (Map.empty(''cachedContent'' \<mapsto> ''{oops'')) ''cachedContent''
        (JObj []) (Some CallbackReturns)
       = \<lparr> returned = Inr (JObj []), storage_after = Map.empty,
           effects = [RemoveItem ''cachedContent'', OnCorrupt] \<rparr>"
    by simp
  from good robustSafeParse_outcomes
    [where json_parse = json_parse_sample and store = "Map.empty(''cachedContent'' \<mapsto> ''{}'')"
       and key = "''cachedContent''" and raw = "''{}''" and fallback = JNull
       and onCorrupt = "Some CallbackReturns" and parsed = "JObj []"]
  have 2: "robustSafeParse json_parse_sample (Map.empty(''cachedContent'' \<mapsto> ''{}'')) ''cachedContent''
        JNull (Some CallbackReturns)
       = \<lparr> returned = Inr (JObj []), storage_after = Map.empty(''cachedContent'' \<mapsto> ''{}''), effects = [] \<rparr>"
    by simp
  from bad good 1 2 show ?thesis by simp
qed

text \<open>
  C9. The parsed value is returned as it is, whatever the fallback: for any parser that
  rejects the empty text, as \<^verbatim>\<open>JSON.parse\<close> does, a stored string that parses gives the
  parsed value, the store is untouched and the callback does not run. In particular the
  stored string \<^verbatim>\<open>null\<close>, which parses to \<^verbatim>\<open>null\<close>, gives \<^verbatim>\<open>null\<close> and not the fallback.
\<close>

theorem robustSafeParse_no_shape_check:
  assumes "json_parse [] = None"
  shows "(store key = Some raw \<and> json_parse raw = Some parsed \<longrightarrow>
            robustSafeParse json_parse store key fallback onCorrupt
              = \<lparr> returned = Inr parsed, storage_after = store, effects = [] \<rparr>)
         \<and> (store key = Some ''null'' \<and> json_parse ''null'' = Some JNull \<longrightarrow>
            returned (robustSafeParse json_parse store key fallback onCorrupt) = Inr JNull)"
  using assms by (auto simp: robustSafeParse_def)

theorem robustSafeParse_no_shape_check_witness:
  "json_parse_sample [] = None
   \<and> (Map.empty(''cachedContent'' \<mapsto> ''null'')) ''cachedContent'' = Some ''null''
   \<and> json_parse_sample ''null'' = Some JNull
   \<and> returned (robustSafeParse json_parse_sample (Map.empty(''cachedContent'' \<mapsto> ''null''))
        ''cachedContent'' (JObj []) (Some CallbackReturns)) = Inr JNull
   \<and> JNull \<noteq> JObj []
   \<and> robustSafeParse json_parse_sample (Map.empty(''enrichmentCollapsed'' \<mapsto> ''[]''))
        ''enrichmentCollapsed'' (JBool False) None
       = \<lparr> returned = Inr (JArr []), storage_after = Map.empty(''enrichmentCollapsed'' \<mapsto> ''[]''),
           effects = [] \<rparr>"
proof -
  have e: "json_parse_sample [] = None" by (simp add: json_parse_sample_def)
  have n: "(Map.empty(''cachedContent'' \<mapsto> ''null'')) ''cachedContent'' = Some ''null''
      \<and> json_parse_sample ''null'' = Some JNull"
    by (simp add: json_parse_sample_def)
  have a: "(Map.empty(''enrichmentCollapsed'' \<mapsto> ''[]'')) ''enrichmentCollapsed'' = Some ''[]''
      \<and> json_parse_sample ''[]'' = Some (JArr [])"
    by (simp add: json_parse_sample_def)
  from n robustSafeParse_no_shape_check
    [where json_parse = json_parse_sample and store = "Map.empty(''cachedContent'' \<mapsto> ''null'')"
       and key = "''cachedContent''" and raw = "''null''" and parsed = JNull
       and fallback = "JObj []" and onCorrupt = "Some CallbackReturns", OF e]
  have 1: "returned (robustSafeParse json_parse_sample (Map.empty(''cachedContent'' \<mapsto> ''null''))
        ''cachedContent'' (JObj []) (Some CallbackReturns)) = Inr JNull"
    by simp
  from a robustSafeParse_no_shape_check
    [where json_parse = json_parse_sample and store = "Map.empty(''enrichmentCollapsed'' \<mapsto> ''[]'')"
       and key = "''enrichmentCollapsed''" and raw = "''[]''" and parsed = "JArr []"
       and fallback = "JBool False" and onCorrupt = None, OF e]
  have 2: "robustSafeParse json_parse_sample (Map.empty(''enrichmentCollapsed'' \<mapsto> ''[]''))
        ''enrichmentCollapsed'' (JBool False) None
       = \<lparr> returned = Inr (JArr []), storage_after = Map.empty(''enrichmentCollapsed'' \<mapsto> ''[]''),
           effects = [] \<rparr>"
    by simp
  from e n 1 2 show ?thesis by simp
qed

section \<open>Marking a chapter complete\<close>

text \<open>
  C10. \<^verbatim>\<open>markChapterComplete\<close> issues an update only when the key is not in the list yet,
  and the update appends the key at the end. For a list without duplicates the list after
  the operation has no duplicates and starts with the old list, entry for entry. Once the
  list is the one after the operation, a second call for the same chapter issues nothing.
\<close>

theorem markChapterComplete_once:
  assumes "distinct completed"
  shows "distinct (completed_after completed (markChapterComplete key completed))
         \<and> take (length completed) (completed_after completed (markChapterComplete key completed))
             = completed
         \<and> (\<forall>k. key = Some k \<and> k \<in> set completed \<longrightarrow> markChapterComplete key completed = [])
         \<and> (\<forall>k. key = Some k \<and> k \<noteq> [] \<and> k \<notin> set completed \<longrightarrow>
               markChapterComplete key completed = [completed @ [k]])
         \<and> markChapterComplete key (completed_after completed (markChapterComplete key completed)) = []"
  using assms by (auto simp: markChapterComplete_def completed_after_def split: option.splits)

theorem markChapterComplete_once_witness:
  "distinct [''Genesis-1'', ''Genesis-2'']
   \<and> chapterIdentifierKey (Some \<lparr>book = ''1 Samuel'', chapter_no = Whole 3\<rparr>) = Some ''1_Samuel-3''
   \<and> markChapterComplete (Some ''1_Samuel-3'') [''Genesis-1'', ''Genesis-2'']
       = [[''Genesis-1'', ''Genesis-2'', ''1_Samuel-3'']]
   \<and> markChapterComplete (Some ''1_Samuel-3'')
        (completed_after [''Genesis-1'', ''Genesis-2'']
           (markChapterComplete (Some ''1_Samuel-3'') [''Genesis-1'', ''Genesis-2''])) = []"
proof -
  have d: "distinct [''Genesis-1'', ''Genesis-2'']" by simp
  have k: "chapterIdentifierKey (Some \<lparr>book = ''1 Samuel'', chapter_no = Whole 3\<rparr>) = Some ''1_Samuel-3''"
    by (simp add: chapterIdentifierKey_def replace_spaces_def is_space_def decimal_def
        string_of_nat.simps digit_char_def)
  have fresh: "''1_Samuel-3'' \<noteq> [] \<and> ''1_Samuel-3'' \<notin> set [''Genesis-1'', ''Genesis-2'']" by simp
  note t = markChapterComplete_once [OF d, of "Some ''1_Samuel-3''"]
  from t fresh have "markChapterComplete (Some ''1_Samuel-3'') [''Genesis-1'', ''Genesis-2'']
       = [[''Genesis-1'', ''Genesis-2''] @ [''1_Samuel-3'']]"
    by blast
  moreover from t have "markChapterComplete (Some ''1_Samuel-3'')
        (completed_after [''Genesis-1'', ''Genesis-2'']
           (markChapterComplete (Some ''1_Samuel-3'') [''Genesis-1'', ''Genesis-2''])) = []"
    by blast
  ultimately show ?thesis using d k by simp
qed

end
